theory Spec2Isabelle
  imports Main "HOL-Library.Word"
begin

section \<open>Data model of package service (Application.go and the advertisement object)\<close>

text \<open>
  Go strings are byte sequences and \<open>len\<close> counts bytes, as \<open>length\<close> does on
  \<open>string\<close>. \<open>dbus.ObjectPath\<close> is a named string type. A byte slice that may be
  \<open>nil\<close> is an optional byte list: \<open>None\<close> is the nil slice, \<open>Some []\<close> the empty
  non-nil slice that \<open>make([]byte, 0)\<close> returns. A Go \<open>error\<close> is the value whose
  \<open>Error()\<close> function yields the message; a possibly nil error is an option of it.
\<close>

type_synonym ObjectPath = string

type_synonym byte_slice = "8 word list option"

datatype go_error = Error string

fun Error_msg :: "go_error \<Rightarrow> string" where
  "Error_msg (Error m) = m"

text \<open>A runtime panic of the Go program: the call does not return.\<close>

datatype panic = SliceBoundsOutOfRange

text \<open>\<open>const UUIDSuffix\<close> of Application.go.\<close>

definition UUIDSuffix_const :: string where
  "UUIDSuffix_const = ''-0000-1000-8000-00805F9B34FB''"

text \<open>
  The four callback types. The Go callbacks also receive the \<open>*Application\<close>; the
  model passes the remaining arguments and takes the callback's answer as a function of
  them.
\<close>

type_synonym GattWriteCallback = "string \<Rightarrow> string \<Rightarrow> byte_slice \<Rightarrow> go_error option"
type_synonym GattDescriptorWriteCallback =
  "string \<Rightarrow> string \<Rightarrow> string \<Rightarrow> byte_slice \<Rightarrow> go_error option"
type_synonym GattReadCallback = "string \<Rightarrow> string \<Rightarrow> byte_slice \<times> go_error option"
type_synonym GattDescriptorReadCallback =
  "string \<Rightarrow> string \<Rightarrow> string \<Rightarrow> byte_slice \<times> go_error option"

text \<open>
  \<open>struct ApplicationConfig\<close>. The field \<open>conn\<close> points to the bus connection, which
  the model keeps in the application state below. \<open>serviceIndex\<close> is a Go \<open>int\<close>: a
  64-bit two's complement integer (on a 64-bit platform) whose \<open>++\<close> wraps around.
\<close>

record ApplicationConfig =
  UUIDSuffix :: string
  UUID :: string
  ObjectName :: string
  ObjectPath :: ObjectPath
  serviceIndex :: "64 word"
  LocalName :: string
  WriteFunc :: "GattWriteCallback option"
  ReadFunc :: "GattReadCallback option"
  DescWriteFunc :: "GattDescriptorWriteCallback option"
  DescReadFunc :: "GattDescriptorReadCallback option"

text \<open>\<open>struct CallbackError\<close> and its two codes.\<close>

record CallbackError =
  msg :: string
  code :: int

definition NewCallbackError :: "int \<Rightarrow> string \<Rightarrow> CallbackError" where
  "NewCallbackError c m = \<lparr>msg = m, code = c\<rparr>"

definition CALLBACK_NOT_REGISTERED :: int where
  "CALLBACK_NOT_REGISTERED = -1"

definition CALLBACK_FUNCTION_ERROR :: int where
  "CALLBACK_FUNCTION_ERROR = -2"


subsection \<open>Introspection nodes and the bus connection\<close>

text \<open>
  \<open>introspect.Node\<close> and \<open>introspect.Interface\<close> of the D-Bus library. The interface
  descriptions the sources use are library constants, kept as constructors.
\<close>

datatype introspect_Interface =
    IntrospectData
  | ObjectManagerIntrospectData
  | PropIntrospectData
  | InterfaceNamed string

datatype introspect_Node =
  Node (Name: string) (Interfaces: "introspect_Interface list") (Children: "introspect_Node list")

text \<open>
  Modelled from the spec: the declarations of the service, characteristic and
  descriptor nodes (\<open>profile.GattService1Properties\<close>, \<open>GattService1Config\<close>,
  \<open>GattService1\<close> and the nodes below a service) are missing; a node carries a UUID, a
  property bag and a mapping of children keyed by their own path, a service also its
  path, its index and its advertised flag (the fields \<open>CreateService\<close> sets and the
  getters \<open>Path\<close>, \<open>Advertised\<close>, \<open>GetCharacteristics\<close>, \<open>GetDescriptors\<close> read).
\<close>

record GattDescriptor1 =
  descriptor_UUID :: string

record GattCharacteristic1 =
  characteristic_UUID :: string
  descriptors :: "ObjectPath \<rightharpoonup> GattDescriptor1"

record GattService1Properties =
  service_UUID :: string
  Primary :: bool

record GattService1Config =
  service_objectPath :: ObjectPath
  ID :: "64 word"
  advertised :: bool

record GattService1 =
  service_config :: GattService1Config
  service_properties :: GattService1Properties
  characteristics :: "ObjectPath \<rightharpoonup> GattCharacteristic1"

definition Path_service :: "GattService1 \<Rightarrow> ObjectPath" where
  "Path_service s = service_objectPath (service_config s)"

definition Advertised :: "GattService1 \<Rightarrow> bool" where
  "Advertised s = advertised (service_config s)"

definition GetCharacteristics :: "GattService1 \<Rightarrow> (ObjectPath \<rightharpoonup> GattCharacteristic1)" where
  "GetCharacteristics s = characteristics s"

definition GetDescriptors :: "GattCharacteristic1 \<Rightarrow> (ObjectPath \<rightharpoonup> GattDescriptor1)" where
  "GetDescriptors c = descriptors c"

text \<open>\<open>struct LEAdvertisement1Config\<close> (without the two pointers \<open>app\<close> and \<open>conn\<close>).\<close>

record LEAdvertisement1Config =
  objectPath :: ObjectPath
  device_path :: ObjectPath

record LEAdvertisement1Properties =
  Type :: string
  ServiceUUIDs :: "string list"
  ManufacturerData :: "string \<rightharpoonup> 8 word list"
  SolicitUUIDs :: "string list"
  ServiceData :: "string \<rightharpoonup> 8 word list"
  Includes :: "string list"
  advertisement_LocalName :: string
  Appearance :: "16 word"
  Duration :: "16 word"
  Timeout :: "16 word"

datatype bluez_Properties =
    ServiceProperties GattService1Properties
  | AdvertisementProperties LEAdvertisement1Properties

text \<open>
  Modelled from the spec: type \<open>Properties\<close> (the property table) is missing; it is a
  per-interface property store, here a map from interface name to the properties.
\<close>

type_synonym Properties = "string \<rightharpoonup> bluez_Properties"

record LEAdvertisement1 =
  advertisement_config :: LEAdvertisement1Config
  advertisement_properties :: LEAdvertisement1Properties
  PropertiesInterface :: Properties

text \<open>
  The connection \<open>*dbus.Conn\<close>: what is exported at each (path, interface) and the
  calls sent so far, oldest first.
\<close>

datatype dbus_value = PathValue ObjectPath | DictValue "(string \<times> string) list"

record dbus_call =
  destination :: string
  object_path :: ObjectPath
  method_name :: string
  flags :: nat
  args :: "dbus_value list"

datatype exported_object =
    IntrospectableObject introspect_Node
  | ServiceObject ObjectPath
  | AdvertisementObject ObjectPath
  | PropertiesObject Properties

record Conn =
  exported :: "(ObjectPath \<times> string) \<rightharpoonup> exported_object"
  calls :: "dbus_call list"

text \<open>
  Modelled from the spec: type \<open>ObjectManager\<close> (the object directory) is missing; it
  maintains path \<open>\<rightarrow>\<close> (interface \<open>\<rightarrow>\<close> properties) for every live node.
\<close>

record ObjectManager =
  objects :: "ObjectPath \<rightharpoonup> (string \<rightharpoonup> bluez_Properties)"

text \<open>
  \<open>struct Application\<close>. \<open>conn\<close> is the connection that \<open>config.conn\<close> points to. An
  application is one that \<open>NewApplication\<close> built: \<open>config\<close>, \<open>objectManager\<close> and
  the \<open>services\<close> map are not nil. The map holds the services themselves.
\<close>

record Application =
  config :: ApplicationConfig
  objectManager :: ObjectManager
  services :: "ObjectPath \<rightharpoonup> GattService1"
  advertisement :: "LEAdvertisement1 option"
  conn :: Conn

text \<open>
  What the code leaves to its surroundings, as parameters of one call: whether an export
  or a call to the daemon fails, whether the missing constructors and the object directory
  report an error, and the order in which this call's \<open>range\<close> loops visit the keys of
  the three kinds of map (Go fixes no order and may change it from loop to loop).
\<close>

record Env =
  Export_err :: "ObjectPath \<Rightarrow> string \<Rightarrow> go_error option"
  Call_err :: "dbus_call \<Rightarrow> go_error option"
  NewProperties_err :: "go_error option"
  AddProperties_err :: "string \<Rightarrow> go_error option"
  AddObject_err :: "ObjectPath \<Rightarrow> go_error option"
  RemoveObject_err :: "ObjectPath \<Rightarrow> go_error option"
  range_services :: "ObjectPath list"
  range_characteristics :: "ObjectPath \<Rightarrow> ObjectPath list"
  range_descriptors :: "ObjectPath \<Rightarrow> ObjectPath \<Rightarrow> ObjectPath list"


section \<open>Operations\<close>

subsection \<open>Getters and UUID generation\<close>

definition GetObjectManager :: "Application \<Rightarrow> ObjectManager" where
  "GetObjectManager app = objectManager app"

definition Path :: "Application \<Rightarrow> ObjectPath" where
  "Path app = ObjectPath (config app)"

definition GetServices :: "Application \<Rightarrow> (ObjectPath \<rightharpoonup> GattService1)" where
  "GetServices app = services app"

definition GenerateUUID :: "Application \<Rightarrow> string \<Rightarrow> string" where
  "GenerateUUID app uuidVal =
     (let base = UUID (config app);
          base = (if length uuidVal = 8 then [] else base)
      in base @ uuidVal @ UUIDSuffix (config app))"

subsection \<open>Dispatch of inbound reads and writes\<close>

definition HandleRead :: "Application \<Rightarrow> string \<Rightarrow> string \<Rightarrow> byte_slice \<times> CallbackError option" where
  "HandleRead app srv_uuid uuid =
     (case ReadFunc (config app) of
        None \<Rightarrow> (Some [], Some (NewCallbackError (-1) ''No callback registered.''))
      | Some f \<Rightarrow>
          (case f srv_uuid uuid of
             (b, Some err) \<Rightarrow> (b, Some (NewCallbackError (-2) (Error_msg err)))
           | (b, None) \<Rightarrow> (b, None)))"

definition HandleWrite :: "Application \<Rightarrow> string \<Rightarrow> string \<Rightarrow> byte_slice \<Rightarrow> CallbackError option" where
  "HandleWrite app srv_uuid uuid val =
     (case WriteFunc (config app) of
        None \<Rightarrow> Some (NewCallbackError (-1) ''No callback registered.'')
      | Some f \<Rightarrow>
          (case f srv_uuid uuid val of
             Some err \<Rightarrow> Some (NewCallbackError (-2) (Error_msg err))
           | None \<Rightarrow> None))"

definition HandleDescriptorRead ::
  "Application \<Rightarrow> string \<Rightarrow> string \<Rightarrow> string \<Rightarrow> byte_slice \<times> CallbackError option" where
  "HandleDescriptorRead app srv_uuid char_uuid desc_uuid =
     (case DescReadFunc (config app) of
        None \<Rightarrow> (Some [], Some (NewCallbackError (-1) ''No callback registered.''))
      | Some f \<Rightarrow>
          (case f srv_uuid char_uuid desc_uuid of
             (b, Some err) \<Rightarrow> (b, Some (NewCallbackError (-2) (Error_msg err)))
           | (b, None) \<Rightarrow> (b, None)))"

definition HandleDescriptorWrite ::
  "Application \<Rightarrow> string \<Rightarrow> string \<Rightarrow> string \<Rightarrow> byte_slice \<Rightarrow> CallbackError option" where
  "HandleDescriptorWrite app srv_uuid char_uuid desc_uuid val =
     (case DescWriteFunc (config app) of
        None \<Rightarrow> Some (NewCallbackError (-1) ''No callback registered.'')
      | Some f \<Rightarrow>
          (case f srv_uuid char_uuid desc_uuid val of
             Some err \<Rightarrow> Some (NewCallbackError (-2) (Error_msg err))
           | None \<Rightarrow> None))"

subsection \<open>The connection\<close>

text \<open>
  \<open>conn.Export(v, path, iface)\<close> of the D-Bus library: on success the object is
  reachable at that path and interface; on failure nothing is exported.
\<close>

definition Export :: "Env \<Rightarrow> exported_object \<Rightarrow> ObjectPath \<Rightarrow> string \<Rightarrow> Conn \<Rightarrow> go_error option \<times> Conn" where
  "Export env v path iface c =
     (case Export_err env path iface of
        Some err \<Rightarrow> (Some err, c)
      | None \<Rightarrow> (None, c\<lparr>exported := (exported c)((path, iface) \<mapsto> v)\<rparr>))"

text \<open>
  \<open>conn.Object(dest, path).Call(name, flags, args...)\<close>: the call is sent and waited
  for; the result is the \<open>Err\<close> of the reply.
\<close>

definition Call :: "Env \<Rightarrow> dbus_call \<Rightarrow> Conn \<Rightarrow> go_error option \<times> Conn" where
  "Call env cl c = (Call_err env cl, c\<lparr>calls := calls c @ [cl]\<rparr>)"

definition Introspectable :: string where
  "Introspectable = ''org.freedesktop.DBus.Introspectable''"

text \<open>
  Modelled from the spec: the interface names of package \<open>bluez\<close> and of the property
  interface are missing from the sources; they are the names the daemon's API gives them.
\<close>

definition LEAdvertisement1Interface :: string where
  "LEAdvertisement1Interface = ''org.bluez.LEAdvertisement1''"

definition GattService1Interface :: string where
  "GattService1Interface = ''org.bluez.GattService1''"

definition PropertiesInterfaceName :: string where
  "PropertiesInterfaceName = ''org.freedesktop.DBus.Properties''"

text \<open>
  Modelled from the spec: \<open>NewProperties\<close>, \<open>Properties.AddProperties\<close> and
  \<open>Properties.Expose\<close> are missing. A new table is empty; adding stores the properties
  under the interface unless the table reports an error; exposing exports the table at
  the path (the sources ignore its result).
\<close>

definition NewProperties :: "Env \<Rightarrow> go_error + Properties" where
  "NewProperties env = (case NewProperties_err env of Some err \<Rightarrow> Inl err | None \<Rightarrow> Inr Map.empty)"

definition AddProperties :: "Env \<Rightarrow> string \<Rightarrow> bluez_Properties \<Rightarrow> Properties \<Rightarrow> go_error option \<times> Properties" where
  "AddProperties env iface props tbl =
     (case AddProperties_err env iface of
        Some err \<Rightarrow> (Some err, tbl)
      | None \<Rightarrow> (None, tbl(iface \<mapsto> props)))"

definition Properties_Expose :: "Env \<Rightarrow> Properties \<Rightarrow> ObjectPath \<Rightarrow> Conn \<Rightarrow> Conn" where
  "Properties_Expose env tbl path c = snd (Export env (PropertiesObject tbl) path PropertiesInterfaceName c)"


subsection \<open>The advertisement object\<close>

definition Interface :: "LEAdvertisement1 \<Rightarrow> string" where
  "Interface ad = LEAdvertisement1Interface"

definition Path_advertisement :: "LEAdvertisement1 \<Rightarrow> ObjectPath" where
  "Path_advertisement ad = objectPath (advertisement_config ad)"

definition Properties_advertisement :: "LEAdvertisement1 \<Rightarrow> (string \<times> bluez_Properties) list" where
  "Properties_advertisement ad = [(Interface ad, AdvertisementProperties (advertisement_properties ad))]"

text \<open>\<open>NewLEAdvertisement1\<close> returns \<open>(nil, err)\<close> (here \<open>Inl err\<close>) or \<open>(a, nil)\<close>.\<close>

definition NewLEAdvertisement1 ::
  "Env \<Rightarrow> LEAdvertisement1Config \<Rightarrow> LEAdvertisement1Properties \<Rightarrow> go_error + LEAdvertisement1" where
  "NewLEAdvertisement1 env cfg props =
     (case NewProperties env of
        Inl err \<Rightarrow> Inl err
      | Inr propInterface \<Rightarrow>
          (let a = \<lparr>advertisement_config = cfg, advertisement_properties = props,
                    PropertiesInterface = propInterface\<rparr>
           in case AddProperties env (Interface a) (AdvertisementProperties props) propInterface of
                (Some err, _) \<Rightarrow> Inl err
              | (None, tbl) \<Rightarrow> Inr (a\<lparr>PropertiesInterface := tbl\<rparr>)))"

text \<open>The loop of \<open>Expose\<close> over \<open>ad.Properties()\<close>; the result of adding is dropped.\<close>

fun add_all_properties :: "Env \<Rightarrow> (string \<times> bluez_Properties) list \<Rightarrow> Properties \<Rightarrow> Properties" where
  "add_all_properties env [] tbl = tbl"
| "add_all_properties env ((iface, props) # rest) tbl =
     add_all_properties env rest (snd (AddProperties env iface props tbl))"

definition Expose_advertisement ::
  "Env \<Rightarrow> LEAdvertisement1 \<Rightarrow> Conn \<Rightarrow> go_error option \<times> LEAdvertisement1 \<times> Conn" where
  "Expose_advertisement env ad c =
     (case Export env (AdvertisementObject (Path_advertisement ad)) (Path_advertisement ad) (Interface ad) c of
        (Some err, c1) \<Rightarrow> (Some err, ad, c1)
      | (None, c1) \<Rightarrow>
          (let tbl = add_all_properties env (Properties_advertisement ad) (PropertiesInterface ad);
               ad1 = ad\<lparr>PropertiesInterface := tbl\<rparr>;
               c2 = Properties_Expose env tbl (Path_advertisement ad1) c1;
               node = Node [] [IntrospectData, PropIntrospectData, InterfaceNamed (Interface ad1)] []
           in case Export env (IntrospectableObject node) (Path_advertisement ad1) Introspectable c2 of
                (Some err, c3) \<Rightarrow> (Some err, ad1, c3)
              | (None, c3) \<Rightarrow> (None, ad1, c3)))"

subsection \<open>Services\<close>






definition Properties_service :: "GattService1 \<Rightarrow> (string \<rightharpoonup> bluez_Properties)" where
  "Properties_service s = [GattService1Interface \<mapsto> ServiceProperties (service_properties s)]"

definition Expose_service :: "Env \<Rightarrow> GattService1 \<Rightarrow> Conn \<Rightarrow> go_error option \<times> Conn" where
  "Expose_service env s c =
     (case Export env (ServiceObject (Path_service s)) (Path_service s) GattService1Interface c of
        (Some err, c1) \<Rightarrow> (Some err, c1)
      | (None, c1) \<Rightarrow>
          (let c2 = Properties_Expose env (Properties_service s) (Path_service s) c1;
               node = Node [] [IntrospectData, PropIntrospectData, InterfaceNamed GattService1Interface] []
           in Export env (IntrospectableObject node) (Path_service s) Introspectable c2))"

text \<open>
  Modelled from the spec: \<open>ObjectManager.AddObject\<close> and \<open>ObjectManager.RemoveObject\<close>
  are missing. Adding stores the interface/property snapshot under the path and then
  emits the add notification; removing deletes the entry and emits the remove
  notification; the error is that of the notification.
\<close>

definition AddObject ::
  "Env \<Rightarrow> ObjectPath \<Rightarrow> (string \<rightharpoonup> bluez_Properties) \<Rightarrow> ObjectManager \<Rightarrow> go_error option \<times> ObjectManager" where
  "AddObject env path props om = (AddObject_err env path, om\<lparr>objects := (objects om)(path \<mapsto> props)\<rparr>)"

definition RemoveObject :: "Env \<Rightarrow> ObjectPath \<Rightarrow> ObjectManager \<Rightarrow> go_error option \<times> ObjectManager" where
  "RemoveObject env path om = (RemoveObject_err env path, om\<lparr>objects := (objects om)(path := None)\<rparr>)"



subsection \<open>Iterating over a Go map\<close>

text \<open>
  A \<open>range\<close> loop over a map visits every entry once, in an order chosen by the runtime.
  \<open>range_go m ks\<close> are the entries in the order \<open>ks\<close> of their keys, and
  \<open>range_order m ks\<close> says that \<open>ks\<close> is such an order: every key of \<open>m\<close>, once.
\<close>

definition range_go :: "('k \<rightharpoonup> 'v) \<Rightarrow> 'k list \<Rightarrow> ('k \<times> 'v) list" where
  "range_go m ks = concat (map (\<lambda>k. case m k of None \<Rightarrow> [] | Some v \<Rightarrow> [(k, v)]) ks)"

definition range_order :: "('k \<rightharpoonup> 'v) \<Rightarrow> 'k list \<Rightarrow> bool" where
  "range_order m ks \<longleftrightarrow> distinct ks \<and> set ks = dom m"

subsection \<open>Publishing the introspection tree\<close>

text \<open>The slice expression \<open>s[1:]\<close> panics on the empty string.\<close>

fun slice_from_1 :: "string \<Rightarrow> panic + string" where
  "slice_from_1 [] = Inl SliceBoundsOutOfRange"
| "slice_from_1 (c # cs) = Inr cs"

text \<open>The three nested loops of \<open>exportTree\<close>, innermost first, appending to \<open>childrenNode\<close>.\<close>

fun descriptor_nodes ::
  "(ObjectPath \<times> GattDescriptor1) list \<Rightarrow> introspect_Node list \<Rightarrow> panic + introspect_Node list" where
  "descriptor_nodes [] childrenNode = Inr childrenNode"
| "descriptor_nodes ((descPath, _) # rest) childrenNode =
     (case slice_from_1 descPath of
        Inl p \<Rightarrow> Inl p
      | Inr name \<Rightarrow> descriptor_nodes rest (childrenNode @ [Node name [] []]))"

fun characteristic_nodes ::
  "Env \<Rightarrow> ObjectPath \<Rightarrow> (ObjectPath \<times> GattCharacteristic1) list \<Rightarrow> introspect_Node list
     \<Rightarrow> panic + introspect_Node list" where
  "characteristic_nodes env servicePath [] childrenNode = Inr childrenNode"
| "characteristic_nodes env servicePath ((charPath, char) # rest) childrenNode =
     (case slice_from_1 charPath of
        Inl p \<Rightarrow> Inl p
      | Inr name \<Rightarrow>
          (case descriptor_nodes
                  (range_go (GetDescriptors char) (range_descriptors env servicePath charPath))
                  (childrenNode @ [Node name [] []]) of
             Inl p \<Rightarrow> Inl p
           | Inr childrenNode' \<Rightarrow> characteristic_nodes env servicePath rest childrenNode'))"

fun service_nodes ::
  "Env \<Rightarrow> (ObjectPath \<times> GattService1) list \<Rightarrow> introspect_Node list \<Rightarrow> panic + introspect_Node list" where
  "service_nodes env [] childrenNode = Inr childrenNode"
| "service_nodes env ((servicePath, service) # rest) childrenNode =
     (case slice_from_1 servicePath of
        Inl p \<Rightarrow> Inl p
      | Inr name \<Rightarrow>
          (case characteristic_nodes env servicePath
                  (range_go (GetCharacteristics service) (range_characteristics env servicePath))
                  (childrenNode @ [Node name [] []]) of
             Inl p \<Rightarrow> Inl p
           | Inr childrenNode' \<Rightarrow> service_nodes env rest childrenNode'))"

text \<open>The node that \<open>exportTree\<close> builds, and \<open>exportTree\<close>, which exports it.\<close>

definition exportTree_node :: "Env \<Rightarrow> Application \<Rightarrow> panic + introspect_Node" where
  "exportTree_node env app =
     (case service_nodes env (range_go (GetServices app) (range_services env)) [] of
        Inl p \<Rightarrow> Inl p
      | Inr childrenNode \<Rightarrow> Inr (Node [] [IntrospectData, ObjectManagerIntrospectData] childrenNode))"

definition exportTree :: "Env \<Rightarrow> Application \<Rightarrow> panic + (go_error option \<times> Application)" where
  "exportTree env app =
     (case exportTree_node env app of
        Inl p \<Rightarrow> Inl p
      | Inr node \<Rightarrow>
          (case Export env (IntrospectableObject node) (Path app) Introspectable (conn app) of
             (err, c) \<Rightarrow> Inr (err, app\<lparr>conn := c\<rparr>)))"

subsection \<open>Adding and removing services\<close>

definition AddService :: "Env \<Rightarrow> GattService1 \<Rightarrow> Application \<Rightarrow> panic + (go_error option \<times> Application)" where
  "AddService env service app =
     (let app1 = app\<lparr>services := (services app)(Path_service service \<mapsto> service)\<rparr>
      in case Expose_service env service (conn app1) of
           (Some err, c) \<Rightarrow> Inr (Some err, app1\<lparr>conn := c\<rparr>)
         | (None, c) \<Rightarrow>
             (case exportTree env (app1\<lparr>conn := c\<rparr>) of
                Inl p \<Rightarrow> Inl p
              | Inr (Some err, app2) \<Rightarrow> Inr (Some err, app2)
              | Inr (None, app2) \<Rightarrow>
                  (case AddObject env (Path_service service) (Properties_service service)
                          (GetObjectManager app2) of
                     (err, om) \<Rightarrow> Inr (err, app2\<lparr>objectManager := om\<rparr>))))"

definition RemoveService :: "Env \<Rightarrow> GattService1 \<Rightarrow> Application \<Rightarrow> panic + (go_error option \<times> Application)" where
  "RemoveService env service app =
     (case services app (Path_service service) of
        None \<Rightarrow> Inr (None, app)
      | Some _ \<Rightarrow>
          (let app1 = app\<lparr>services := (services app)(Path_service service := None)\<rparr>
           in case RemoveObject env (Path_service service) (GetObjectManager app1) of
                (Some err, om) \<Rightarrow> Inr (Some err, app1\<lparr>objectManager := om\<rparr>)
              | (None, om) \<Rightarrow>
                  (case exportTree env (app1\<lparr>objectManager := om\<rparr>) of
                     Inl p \<Rightarrow> Inl p
                   | Inr (Some err, app2) \<Rightarrow> Inr (Some err, app2)
                   | Inr (None, app2) \<Rightarrow> Inr (None, app2))))"

subsection \<open>Advertising\<close>

text \<open>The loop of \<open>StartAdvertising\<close> over the services, appending to \<open>serv_uuids\<close>.\<close>

fun advertised_uuids :: "(ObjectPath \<times> GattService1) list \<Rightarrow> string list \<Rightarrow> string list" where
  "advertised_uuids [] serv_uuids = serv_uuids"
| "advertised_uuids ((_, serv) # rest) serv_uuids =
     advertised_uuids rest
       (if Advertised serv then serv_uuids @ [service_UUID (service_properties serv)]
        else serv_uuids)"

definition StartAdvertising :: "Env \<Rightarrow> string \<Rightarrow> Application \<Rightarrow> go_error option \<times> Application" where
  "StartAdvertising env device_name app =
     (if advertisement app \<noteq> None then (None, app)
      else
        (let path = ''/org/bluez/advertisement/0'';
             device_objpath = ''/org/bluez/'' @ device_name;
             cfg = \<lparr>objectPath = path, device_path = device_objpath\<rparr>;
             serv_uuids = advertised_uuids (range_go (services app) (range_services env)) [];
             props = \<lparr>Type = ''peripheral'', ServiceUUIDs = serv_uuids,
                      ManufacturerData = Map.empty, SolicitUUIDs = [], ServiceData = Map.empty,
                      Includes = [], advertisement_LocalName = LocalName (config app),
                      Appearance = 0, Duration = 2, Timeout = 60\<rparr>
         in case NewLEAdvertisement1 env cfg props of
              Inl err \<Rightarrow> (Some err, app\<lparr>advertisement := None\<rparr>)
            | Inr ad \<Rightarrow>
                (case Expose_advertisement env ad (conn app) of
                   (Some err, ad1, c1) \<Rightarrow> (Some err, app\<lparr>advertisement := Some ad1, conn := c1\<rparr>)
                 | (None, ad1, c1) \<Rightarrow>
                     (let options = [];
                          cl = \<lparr>destination = ''org.bluez'', object_path = device_objpath,
                                method_name = ''org.bluez.LEAdvertisingManager1.RegisterAdvertisement'',
                                flags = 0, args = [PathValue (objectPath cfg), DictValue options]\<rparr>
                      in case Call env cl c1 of
                           (err, c2) \<Rightarrow> (err, app\<lparr>advertisement := Some ad1, conn := c2\<rparr>)))))"

definition StopAdvertising :: "Env \<Rightarrow> Application \<Rightarrow> go_error option \<times> Application" where
  "StopAdvertising env app =
     (case advertisement app of
        None \<Rightarrow> (None, app)
      | Some ad \<Rightarrow>
          (let cl = \<lparr>destination = ''org.bluez'', object_path = device_path (advertisement_config ad),
                     method_name = ''org.bluez.LEAdvertisingManager1.UnregisterAdvertisement'',
                     flags = 0, args = [PathValue (objectPath (advertisement_config ad))]\<rparr>
           in case Call env cl (conn app) of
                (err, c) \<Rightarrow> (err, app\<lparr>conn := c, advertisement := None\<rparr>)))"


section \<open>Notions used in the statements\<close>

subsection \<open>The registered tree\<close>

text \<open>
  The paths of the services registered with the application, of their characteristics
  and of the descriptors of these.
\<close>

definition tree_paths :: "Application \<Rightarrow> ObjectPath set" where
  "tree_paths app =
     dom (services app) \<union>
     (\<Union>s \<in> ran (services app).
        dom (characteristics s) \<union> (\<Union>c \<in> ran (characteristics s). dom (descriptors c)))"

text \<open>The orders of an environment are iteration orders of the application's maps.\<close>

definition ranges_ok :: "Env \<Rightarrow> Application \<Rightarrow> bool" where
  "ranges_ok env app \<longleftrightarrow>
     range_order (services app) (range_services env) \<and>
     (\<forall>sp s. services app sp = Some s \<longrightarrow>
        range_order (characteristics s) (range_characteristics env sp) \<and>
        (\<forall>cp c. characteristics s cp = Some c \<longrightarrow>
           range_order (descriptors c) (range_descriptors env sp cp)))"

text \<open>The child node for a path, and the paths that the loops of \<open>exportTree\<close> visit.\<close>

definition leaf :: "ObjectPath \<Rightarrow> introspect_Node" where
  "leaf p = Node (tl p) [] []"

definition characteristic_paths ::
  "Env \<Rightarrow> ObjectPath \<Rightarrow> (ObjectPath \<times> GattCharacteristic1) list \<Rightarrow> ObjectPath set" where
  "characteristic_paths env sp es =
     fst ` set es \<union>
     (\<Union>(cp, c) \<in> set es. fst ` set (range_go (descriptors c) (range_descriptors env sp cp)))"

definition service_paths :: "Env \<Rightarrow> (ObjectPath \<times> GattService1) list \<Rightarrow> ObjectPath set" where
  "service_paths env es =
     fst ` set es \<union>
     (\<Union>(sp, s) \<in> set es.
        characteristic_paths env sp (range_go (characteristics s) (range_characteristics env sp)))"

text \<open>
  The spec's wording of the relative name of a path: the path with its leading separator
  stripped.
\<close>

fun strip_leading_separator :: "ObjectPath \<Rightarrow> string" where
  "strip_leading_separator [] = []"
| "strip_leading_separator (c # cs) = (if c = CHR ''/'' then cs else c # cs)"

subsection \<open>The calls to the daemon\<close>

definition RegisterAdvertisement_call :: "string \<Rightarrow> dbus_call" where
  "RegisterAdvertisement_call device_name =
     \<lparr>destination = ''org.bluez'', object_path = ''/org/bluez/'' @ device_name,
      method_name = ''org.bluez.LEAdvertisingManager1.RegisterAdvertisement'',
      flags = 0, args = [PathValue ''/org/bluez/advertisement/0'', DictValue []]\<rparr>"

definition UnregisterAdvertisement_call :: "LEAdvertisement1 \<Rightarrow> dbus_call" where
  "UnregisterAdvertisement_call ad =
     \<lparr>destination = ''org.bluez'', object_path = device_path (advertisement_config ad),
      method_name = ''org.bluez.LEAdvertisingManager1.UnregisterAdvertisement'',
      flags = 0, args = [PathValue (objectPath (advertisement_config ad))]\<rparr>"


subsection \<open>Sequences of calls on the services\<close>













subsection \<open>Example states\<close>

text \<open>
  An application as \<open>NewApplication\<close> returns it, for a configuration with the base
  \<open>0000\<close> and the fixed suffix; an environment in which nothing fails; the service that
  \<open>CreateService\<close> returns first, after a characteristic with a descriptor was added
  to it.
\<close>

definition example_config :: ApplicationConfig where
  "example_config =
     \<lparr>UUIDSuffix = UUIDSuffix_const, UUID = ''0000'', ObjectName = ''org.example.app'',
      ObjectPath = ''/org/example/app'', serviceIndex = 0, LocalName = ''example'',
      WriteFunc = None, ReadFunc = None, DescWriteFunc = None, DescReadFunc = None\<rparr>"

definition example_app :: Application where
  "example_app =
     \<lparr>config = example_config, objectManager = \<lparr>objects = Map.empty\<rparr>, services = Map.empty,
      advertisement = None, conn = \<lparr>exported = Map.empty, calls = []\<rparr>\<rparr>"

definition example_env :: Env where
  "example_env =
     \<lparr>Export_err = (\<lambda>_ _. None), Call_err = (\<lambda>_. None), NewProperties_err = None,
      AddProperties_err = (\<lambda>_. None), AddObject_err = (\<lambda>_. None),
      RemoveObject_err = (\<lambda>_. None),
      range_services = [''/org/example/app/service1''],
      range_characteristics = (\<lambda>_. [''/org/example/app/service1/char1'']),
      range_descriptors = (\<lambda>_ _. [''/org/example/app/service1/char1/desc1''])\<rparr>"

definition example_service :: GattService1 where
  "example_service =
     \<lparr>service_config = \<lparr>service_objectPath = ''/org/example/app/service1'', ID = 1,
                          advertised = True\<rparr>,
      service_properties = \<lparr>service_UUID = ''180D-0000-1000-8000-00805F9B34FB'', Primary = True\<rparr>,
      characteristics =
        [''/org/example/app/service1/char1'' \<mapsto>
           \<lparr>characteristic_UUID = ''2A37-0000-1000-8000-00805F9B34FB'',
            descriptors =
              [''/org/example/app/service1/char1/desc1'' \<mapsto>
                 \<lparr>descriptor_UUID = ''2902-0000-1000-8000-00805F9B34FB''\<rparr>]\<rparr>]\<rparr>"

text \<open>The example application with the example service registered.\<close>

definition example_app_1 :: Application where
  "example_app_1 = example_app\<lparr>services := [''/org/example/app/service1'' \<mapsto> example_service]\<rparr>"

text \<open>An environment in which every export fails.\<close>

definition failing_env :: Env where
  "failing_env = example_env\<lparr>Export_err := (\<lambda>_ _. Some (Error ''dbus: export failed''))\<rparr>"

text \<open>An environment in which the daemon answers every call with an error.\<close>

definition refusing_env :: Env where
  "refusing_env = example_env\<lparr>Call_err := (\<lambda>_. Some (Error ''org.bluez.Error.Failed''))\<rparr>"

text \<open>Applications whose four callbacks are registered: failing ones, and serving ones.\<close>

definition failing_app :: Application where
  "failing_app =
     example_app\<lparr>config := example_config
       \<lparr>WriteFunc := Some (\<lambda>_ _ _. Some (Error ''write refused'')),
        ReadFunc := Some (\<lambda>_ _. (None, Some (Error ''read refused''))),
        DescWriteFunc := Some (\<lambda>_ _ _ _. Some (Error ''write refused'')),
        DescReadFunc := Some (\<lambda>_ _ _. (None, Some (Error ''read refused'')))\<rparr>\<rparr>"

definition serving_app :: Application where
  "serving_app =
     example_app\<lparr>config := example_config
       \<lparr>WriteFunc := Some (\<lambda>_ _ _. None),
        ReadFunc := Some (\<lambda>_ _. (Some [0x2A, 0x00], None)),
        DescWriteFunc := Some (\<lambda>_ _ _ _. None),
        DescReadFunc := Some (\<lambda>_ _ _. (Some [0x01], None))\<rparr>\<rparr>"

text \<open>The example application after ``\<open>StartAdvertising("hci0")\<close>''.\<close>

definition advertising_app :: Application where
  "advertising_app = snd (StartAdvertising example_env ''hci0'' example_app_1)"


text \<open>
  An application configured with the object path \<open>app\<close>, holding the service that
  \<open>CreateService\<close> returns for it; and one holding a service under the empty path.
\<close>

definition unrooted_service :: GattService1 where
  "unrooted_service =
     \<lparr>service_config = \<lparr>service_objectPath = ''app/service1'', ID = 1, advertised = False\<rparr>,
      service_properties = \<lparr>service_UUID = ''180D-0000-1000-8000-00805F9B34FB'', Primary = True\<rparr>,
      characteristics = Map.empty\<rparr>"

definition unrooted_app :: Application where
  "unrooted_app =
     example_app\<lparr>config := example_config\<lparr>ObjectPath := ''app'', serviceIndex := 1\<rparr>,
                 services := [''app/service1'' \<mapsto> unrooted_service]\<rparr>"

definition unrooted_env :: Env where
  "unrooted_env =
     example_env\<lparr>range_services := [''app/service1''], range_characteristics := (\<lambda>_. []),
                 range_descriptors := (\<lambda>_ _. [])\<rparr>"

definition pathless_service :: GattService1 where
  "pathless_service =
     \<lparr>service_config = \<lparr>service_objectPath = [], ID = 1, advertised = False\<rparr>,
      service_properties = \<lparr>service_UUID = ''180D-0000-1000-8000-00805F9B34FB'', Primary = True\<rparr>,
      characteristics = Map.empty\<rparr>"

definition pathless_app :: Application where
  "pathless_app = example_app\<lparr>services := [[] \<mapsto> pathless_service]\<rparr>"

definition pathless_env :: Env where
  "pathless_env =
     example_env\<lparr>range_services := [[]], range_characteristics := (\<lambda>_. []),
                 range_descriptors := (\<lambda>_ _. [])\<rparr>"




section \<open>UUID generation\<close>

text \<open>
  C2 (as amended). \<open>GenerateUUID\<close> returns a string computed from its argument and two
  fields of the configuration, and changes nothing. For an argument of length 8 it
  returns the argument followed by the configured suffix \<open>config.UUIDSuffix\<close>, the
  configured base dropped; for any other argument the configured base, the argument and
  the configured suffix. The suffix is the one of the configuration, which is the fixed
  suffix \<open>UUIDSuffix_const\<close> only where the application is configured with it.
\<close>

theorem GenerateUUID_rule:
  "GenerateUUID app v =
     (if length v = 8 then v @ UUIDSuffix (config app)
      else UUID (config app) @ v @ UUIDSuffix (config app))"
  by (simp add: GenerateUUID_def Let_def)

text \<open>The rule at the example application, whose suffix is the fixed one.\<close>

theorem GenerateUUID_rule_witness:
  "GenerateUUID example_app ''feed1234'' = ''feed1234-0000-1000-8000-00805F9B34FB''
   \<and> GenerateUUID example_app ''2A37'' = ''00002A37-0000-1000-8000-00805F9B34FB''"
  using GenerateUUID_rule [of example_app "''feed1234''"] GenerateUUID_rule [of example_app "''2A37''"]
  by (simp add: example_app_def example_config_def UUIDSuffix_const_def)

text \<open>
  C2 as stated fails: with the field \<open>UUIDSuffix\<close> of the configuration left empty, the
  result for an argument of length 8 is the argument alone, not the argument followed by
  the fixed suffix.
\<close>

theorem GenerateUUID_fixed_suffix_counterexample:
  "GenerateUUID (example_app\<lparr>config := example_config\<lparr>UUIDSuffix := []\<rparr>\<rparr>) ''feed1234''
     = ''feed1234''
   \<and> GenerateUUID (example_app\<lparr>config := example_config\<lparr>UUIDSuffix := []\<rparr>\<rparr>) ''feed1234''
     \<noteq> ''feed1234'' @ UUIDSuffix_const"
  by (simp add: GenerateUUID_def Let_def example_app_def example_config_def UUIDSuffix_const_def)

text \<open>
  C3 (as amended). \<open>GenerateUUID("180D")\<close>, an argument of length 4, returns the
  configured base, \<open>180D\<close> and the configured suffix; \<open>GenerateUUID("feed1234")\<close>, of
  length 8, drops the base; \<open>GenerateUUID("someBase0001")\<close> returns the base, the
  argument and the suffix.
\<close>

theorem GenerateUUID_examples:
  "GenerateUUID app ''180D'' = UUID (config app) @ ''180D'' @ UUIDSuffix (config app)
   \<and> GenerateUUID app ''feed1234'' = ''feed1234'' @ UUIDSuffix (config app)
   \<and> GenerateUUID app ''someBase0001''
       = UUID (config app) @ ''someBase0001'' @ UUIDSuffix (config app)"
  by (simp add: GenerateUUID_def Let_def)

theorem GenerateUUID_examples_witness:
  "GenerateUUID example_app ''feed1234'' = ''feed1234-0000-1000-8000-00805F9B34FB''
   \<and> GenerateUUID example_app ''someBase0001'' = ''0000someBase0001-0000-1000-8000-00805F9B34FB''"
  using GenerateUUID_examples [of example_app]
  by (simp add: example_app_def example_config_def UUIDSuffix_const_def)

text \<open>
  C3 as stated fails: with the base \<open>0000\<close> and the fixed suffix configured,
  \<open>GenerateUUID("180D")\<close> keeps the base, since \<open>180D\<close> has 4 characters, not 8.
\<close>

theorem GenerateUUID_180D_counterexample:
  "length ''180D'' = 4
   \<and> UUIDSuffix (config example_app) = UUIDSuffix_const
   \<and> GenerateUUID example_app ''180D'' = ''0000180D-0000-1000-8000-00805F9B34FB''
   \<and> GenerateUUID example_app ''180D'' \<noteq> ''180D'' @ UUIDSuffix_const"
  by (simp add: GenerateUUID_def Let_def example_app_def example_config_def UUIDSuffix_const_def)

section \<open>Dispatch to the callbacks\<close>

text \<open>
  C4. For each of the four handlers: with the callback slot nil the result carries a
  \<open>CallbackError\<close> with the code \<open>CALLBACK_NOT_REGISTERED\<close> and the fixed message; with
  a callback that returns an error it carries the code \<open>CALLBACK_FUNCTION_ERROR\<close> and
  the message of that error; with a callback that succeeds the read handlers return the
  callback's bytes and no error, the write handlers no error.
\<close>

theorem Handle_dispatch:
  "(ReadFunc (config app) = None \<longrightarrow>
      snd (HandleRead app s u)
        = Some \<lparr>msg = ''No callback registered.'', code = CALLBACK_NOT_REGISTERED\<rparr>)
   \<and> (ReadFunc (config app) = Some fr \<and> fr s u = (b, Some err) \<longrightarrow>
      snd (HandleRead app s u) = Some \<lparr>msg = Error_msg err, code = CALLBACK_FUNCTION_ERROR\<rparr>)
   \<and> (ReadFunc (config app) = Some fr \<and> fr s u = (b, None) \<longrightarrow>
      HandleRead app s u = (b, None))
   \<and> (WriteFunc (config app) = None \<longrightarrow>
      HandleWrite app s u v
        = Some \<lparr>msg = ''No callback registered.'', code = CALLBACK_NOT_REGISTERED\<rparr>)
   \<and> (WriteFunc (config app) = Some fw \<and> fw s u v = Some err \<longrightarrow>
      HandleWrite app s u v = Some \<lparr>msg = Error_msg err, code = CALLBACK_FUNCTION_ERROR\<rparr>)
   \<and> (WriteFunc (config app) = Some fw \<and> fw s u v = None \<longrightarrow>
      HandleWrite app s u v = None)
   \<and> (DescReadFunc (config app) = None \<longrightarrow>
      snd (HandleDescriptorRead app s u d)
        = Some \<lparr>msg = ''No callback registered.'', code = CALLBACK_NOT_REGISTERED\<rparr>)
   \<and> (DescReadFunc (config app) = Some fdr \<and> fdr s u d = (b, Some err) \<longrightarrow>
      snd (HandleDescriptorRead app s u d)
        = Some \<lparr>msg = Error_msg err, code = CALLBACK_FUNCTION_ERROR\<rparr>)
   \<and> (DescReadFunc (config app) = Some fdr \<and> fdr s u d = (b, None) \<longrightarrow>
      HandleDescriptorRead app s u d = (b, None))
   \<and> (DescWriteFunc (config app) = None \<longrightarrow>
      HandleDescriptorWrite app s u d v
        = Some \<lparr>msg = ''No callback registered.'', code = CALLBACK_NOT_REGISTERED\<rparr>)
   \<and> (DescWriteFunc (config app) = Some fdw \<and> fdw s u d v = Some err \<longrightarrow>
      HandleDescriptorWrite app s u d v
        = Some \<lparr>msg = Error_msg err, code = CALLBACK_FUNCTION_ERROR\<rparr>)
   \<and> (DescWriteFunc (config app) = Some fdw \<and> fdw s u d v = None \<longrightarrow>
      HandleDescriptorWrite app s u d v = None)
   \<and> CALLBACK_NOT_REGISTERED = -1 \<and> CALLBACK_FUNCTION_ERROR = -2"
  by (simp add: HandleRead_def HandleWrite_def HandleDescriptorRead_def HandleDescriptorWrite_def
      NewCallbackError_def CALLBACK_NOT_REGISTERED_def CALLBACK_FUNCTION_ERROR_def)

text \<open>
  The three cases at the example application (no callback), at one whose callbacks refuse
  and at one whose callbacks serve.
\<close>

theorem Handle_dispatch_witness:
  "ReadFunc (config example_app) = None \<and> WriteFunc (config example_app) = None
   \<and> DescReadFunc (config example_app) = None \<and> DescWriteFunc (config example_app) = None
   \<and> snd (HandleRead example_app ''180D'' ''2A37'')
       = Some \<lparr>msg = ''No callback registered.'', code = -1\<rparr>
   \<and> HandleWrite example_app ''180D'' ''2A37'' (Some [1])
       = Some \<lparr>msg = ''No callback registered.'', code = -1\<rparr>
   \<and> snd (HandleDescriptorRead example_app ''180D'' ''2A37'' ''2902'')
       = Some \<lparr>msg = ''No callback registered.'', code = -1\<rparr>
   \<and> HandleDescriptorWrite example_app ''180D'' ''2A37'' ''2902'' (Some [1])
       = Some \<lparr>msg = ''No callback registered.'', code = -1\<rparr>
   \<and> snd (HandleRead failing_app ''180D'' ''2A37'') = Some \<lparr>msg = ''read refused'', code = -2\<rparr>
   \<and> HandleWrite failing_app ''180D'' ''2A37'' (Some [1])
       = Some \<lparr>msg = ''write refused'', code = -2\<rparr>
   \<and> snd (HandleDescriptorRead failing_app ''180D'' ''2A37'' ''2902'')
       = Some \<lparr>msg = ''read refused'', code = -2\<rparr>
   \<and> HandleDescriptorWrite failing_app ''180D'' ''2A37'' ''2902'' (Some [1])
       = Some \<lparr>msg = ''write refused'', code = -2\<rparr>
   \<and> HandleRead serving_app ''180D'' ''2A37'' = (Some [0x2A, 0x00], None)
   \<and> HandleWrite serving_app ''180D'' ''2A37'' (Some [1]) = None
   \<and> HandleDescriptorRead serving_app ''180D'' ''2A37'' ''2902'' = (Some [0x01], None)
   \<and> HandleDescriptorWrite serving_app ''180D'' ''2A37'' ''2902'' (Some [1]) = None"
  using
    Handle_dispatch [where app = example_app and s = "''180D''" and u = "''2A37''"
      and d = "''2902''" and v = "Some [1]"]
    Handle_dispatch [where app = failing_app and s = "''180D''" and u = "''2A37''"
      and d = "''2902''" and v = "Some [1]" and b = None and err = "Error ''read refused''"
      and fr = "\<lambda>_ _. (None, Some (Error ''read refused''))"
      and fdr = "\<lambda>_ _ _. (None, Some (Error ''read refused''))"]
    Handle_dispatch [where app = failing_app and s = "''180D''" and u = "''2A37''"
      and d = "''2902''" and v = "Some [1]" and err = "Error ''write refused''"
      and fw = "\<lambda>_ _ _. Some (Error ''write refused'')"
      and fdw = "\<lambda>_ _ _ _. Some (Error ''write refused'')"]
    Handle_dispatch [where app = serving_app and s = "''180D''" and u = "''2A37''"
      and d = "''2902''" and v = "Some [1]" and b = "Some [0x2A, 0x00]"
      and fr = "\<lambda>_ _. (Some [0x2A, 0x00], None)"
      and fw = "\<lambda>_ _ _. None" and fdw = "\<lambda>_ _ _ _. None"]
    Handle_dispatch [where app = serving_app and s = "''180D''" and u = "''2A37''"
      and d = "''2902''" and b = "Some [0x01]"
      and fdr = "\<lambda>_ _ _. (Some [0x01], None)"]
  by (simp add: example_app_def failing_app_def serving_app_def example_config_def)

text \<open>
  C10. With the read slot unset, \<open>HandleRead\<close> and \<open>HandleDescriptorRead\<close> return an
  empty slice that is not nil together with the error \<open>CALLBACK_NOT_REGISTERED\<close>, and
  the message of that error is ``No callback registered.'' in all four handlers.
\<close>

theorem Handle_unregistered:
  "(ReadFunc (config app) = None \<longrightarrow>
      HandleRead app s u
        = (Some [], Some \<lparr>msg = ''No callback registered.'', code = CALLBACK_NOT_REGISTERED\<rparr>))
   \<and> (DescReadFunc (config app) = None \<longrightarrow>
      HandleDescriptorRead app s u d
        = (Some [], Some \<lparr>msg = ''No callback registered.'', code = CALLBACK_NOT_REGISTERED\<rparr>))
   \<and> (WriteFunc (config app) = None \<longrightarrow>
      map_option msg (HandleWrite app s u v) = Some ''No callback registered.'')
   \<and> (DescWriteFunc (config app) = None \<longrightarrow>
      map_option msg (HandleDescriptorWrite app s u d v) = Some ''No callback registered.'')"
  by (simp add: HandleRead_def HandleWrite_def HandleDescriptorRead_def HandleDescriptorWrite_def
      NewCallbackError_def CALLBACK_NOT_REGISTERED_def)

theorem Handle_unregistered_witness:
  "ReadFunc (config example_app) = None \<and> DescReadFunc (config example_app) = None
   \<and> WriteFunc (config example_app) = None \<and> DescWriteFunc (config example_app) = None
   \<and> fst (HandleRead example_app ''180D'' ''2A37'') = Some []
   \<and> fst (HandleDescriptorRead example_app ''180D'' ''2A37'' ''2902'') = Some []
   \<and> map_option msg (HandleWrite example_app ''180D'' ''2A37'' None)
       = Some ''No callback registered.''
   \<and> map_option msg (HandleDescriptorWrite example_app ''180D'' ''2A37'' ''2902'' None)
       = Some ''No callback registered.''"
  using Handle_unregistered [of example_app "''180D''" "''2A37''" "''2902''" None]
  by (simp add: example_app_def example_config_def)



section \<open>Iteration over maps\<close>

lemma set_range_go: "set (range_go m ks) = {(k, v). k \<in> set ks \<and> m k = Some v}"
  by (auto simp: range_go_def split: option.splits)

lemma set_range_go_order:
  "range_order m ks \<Longrightarrow> set (range_go m ks) = {(k, v). m k = Some v}"
  by (auto simp: set_range_go range_order_def)



section \<open>Advertising\<close>

text \<open>
  C5. With an advertisement already active, \<open>StartAdvertising\<close> returns nil and leaves
  the whole state as it was: no call is added to those sent to the daemon, nothing is
  exported, no advertisement object is created.
\<close>

theorem StartAdvertising_idempotent:
  "advertisement app \<noteq> None \<Longrightarrow> StartAdvertising env device_name app = (None, app)"
  by (simp add: StartAdvertising_def)















text \<open>Calling \<open>StartAdvertising\<close> a second time, after the scenario above.\<close>

lemma advertising_app_active: "advertisement advertising_app \<noteq> None"
  by (simp add: advertising_app_def StartAdvertising_def NewLEAdvertisement1_def NewProperties_def
      AddProperties_def Expose_advertisement_def Export_def Call_def Let_def example_env_def
      example_app_1_def example_app_def)

theorem StartAdvertising_idempotent_witness:
  "advertisement advertising_app \<noteq> None
   \<and> StartAdvertising example_env ''hci0'' advertising_app = (None, advertising_app)"
  using advertising_app_active StartAdvertising_idempotent [OF advertising_app_active]
  by simp

text \<open>
  C6. With an advertisement active, \<open>StopAdvertising\<close> sends one call,
  \<open>UnregisterAdvertisement\<close> with the advertisement's path at its device path, then
  clears the advertisement reference whatever the reply, and returns the error of the
  reply; with no advertisement it sends nothing, changes nothing and returns nil.
\<close>

theorem StopAdvertising_clears:
  "(advertisement app = Some ad \<longrightarrow>
      fst (StopAdvertising env app) = Call_err env (UnregisterAdvertisement_call ad)
      \<and> calls (conn (snd (StopAdvertising env app)))
          = calls (conn app) @ [UnregisterAdvertisement_call ad]
      \<and> advertisement (snd (StopAdvertising env app)) = None)
   \<and> (advertisement app = None \<longrightarrow> StopAdvertising env app = (None, app))"
  by (simp add: StopAdvertising_def Call_def UnregisterAdvertisement_call_def Let_def)

text \<open>
  After the scenario above, with a daemon that refuses the call: the reference is cleared
  all the same and the error returned. And the example application, which does not
  advertise.
\<close>

lemma advertising_app_calls: "calls (conn advertising_app) = [RegisterAdvertisement_call ''hci0'']"
  by (simp add: advertising_app_def StartAdvertising_def NewLEAdvertisement1_def NewProperties_def
      AddProperties_def Expose_advertisement_def Export_def Call_def Let_def example_env_def
      example_app_1_def example_app_def Properties_Expose_def RegisterAdvertisement_call_def)

theorem StopAdvertising_clears_witness:
  "advertisement advertising_app \<noteq> None
   \<and> fst (StopAdvertising refusing_env advertising_app) = Some (Error ''org.bluez.Error.Failed'')
   \<and> length (calls (conn (snd (StopAdvertising refusing_env advertising_app)))) = 2
   \<and> advertisement (snd (StopAdvertising refusing_env advertising_app)) = None
   \<and> advertisement example_app = None
   \<and> StopAdvertising example_env example_app = (None, example_app)"
proof -
  obtain ad where ad: "advertisement advertising_app = Some ad"
    using advertising_app_active by auto
  have no: "advertisement example_app = None"
    by (simp add: example_app_def)
  show ?thesis
    using ad no advertising_app_calls
      StopAdvertising_clears [of advertising_app ad refusing_env]
      StopAdvertising_clears [of example_app ad example_env]
    by (simp add: refusing_env_def)
qed

section \<open>Adding a service\<close>

lemma Expose_service_failure:
  "Expose_service env s c = (Some err, c') \<Longrightarrow>
     exported c' (p, Introspectable) = exported c (p, Introspectable) \<and> calls c' = calls c"
  by (auto simp: Expose_service_def Export_def Properties_Expose_def Let_def Introspectable_def
      GattService1Interface_def PropertiesInterfaceName_def split: option.splits prod.splits)

text \<open>
  C1 (as amended). If the export of the service object fails during \<open>AddService\<close>, then
  \<open>AddService\<close> returns that export error, and the object directory, the published
  introspection tree, the configuration, the advertisement and the calls sent are as
  before the call; the service map is the one before the call with the service entered
  under its path.
\<close>

theorem AddService_export_failure:
  assumes "Expose_service env service (conn app) = (Some err, c)"
  shows "\<exists>app'. AddService env service app = Inr (Some err, app')
      \<and> objectManager app' = objectManager app
      \<and> exported (conn app') (Path app, Introspectable)
          = exported (conn app) (Path app, Introspectable)
      \<and> calls (conn app') = calls (conn app)
      \<and> config app' = config app
      \<and> advertisement app' = advertisement app
      \<and> services app' = (services app)(Path_service service \<mapsto> service)"
  using assms Expose_service_failure [OF assms, of "Path app"]
  by (simp add: AddService_def Let_def Path_def)

lemma Expose_service_failing_env:
  "Expose_service failing_env example_service (conn example_app)
     = (Some (Error ''dbus: export failed''), conn example_app)"
  by (simp add: Expose_service_def Export_def failing_env_def example_env_def)


text \<open>The example service added to the example application while every export fails.\<close>

theorem AddService_export_failure_witness:
  "Expose_service failing_env example_service (conn example_app)
     = (Some (Error ''dbus: export failed''), conn example_app)
   \<and> (\<exists>app'. AddService failing_env example_service example_app
          = Inr (Some (Error ''dbus: export failed''), app')
        \<and> objectManager app' = objectManager example_app
        \<and> exported (conn app') (Path example_app, Introspectable)
            = exported (conn example_app) (Path example_app, Introspectable)
        \<and> services app' = (services example_app)(Path_service example_service \<mapsto> example_service))"
  using Expose_service_failing_env AddService_export_failure [OF Expose_service_failing_env]
  by blast

text \<open>
  C1 as stated fails: the example application has no service; the export of the example
  service fails; \<open>AddService\<close> returns the export error, and the service map now holds
  the service.
\<close>

theorem AddService_export_failure_counterexample:
  "services example_app ''/org/example/app/service1'' = None
   \<and> AddService failing_env example_service example_app
       = Inr (Some (Error ''dbus: export failed''), example_app_1)
   \<and> services example_app_1 ''/org/example/app/service1'' = Some example_service
   \<and> services example_app_1 \<noteq> services example_app"
proof -
  have a: "services example_app ''/org/example/app/service1'' = None"
    by (simp add: example_app_def)
  have b: "services example_app_1 ''/org/example/app/service1'' = Some example_service"
    by (simp add: example_app_1_def)
  have c: "Path_service example_service = ''/org/example/app/service1''"
    by (simp add: Path_service_def example_service_def)
  have e: "services example_app = Map.empty" "conn (example_app_1) = conn example_app"
    by (simp_all add: example_app_def example_app_1_def)
  have d: "AddService failing_env example_service example_app
       = Inr (Some (Error ''dbus: export failed''), example_app_1)"
    unfolding AddService_def Let_def c
    by (simp add: Expose_service_failing_env [unfolded c] e example_app_1_def)
  have "services example_app_1 \<noteq> services example_app"
  proof
    assume "services example_app_1 = services example_app"
    then have "services example_app_1 ''/org/example/app/service1''
        = services example_app ''/org/example/app/service1''"
      by (rule arg_cong)
    with a b show False by simp
  qed
  with a b d show ?thesis by simp
qed

section \<open>Service paths\<close>

































lemma RemoveService_absent:
  "services app (Path_service s) = None \<Longrightarrow> RemoveService env s app = Inr (None, app)"
  by (simp add: RemoveService_def)











section \<open>The introspection tree\<close>

lemma slice_from_1_tl: "p \<noteq> [] \<Longrightarrow> slice_from_1 p = Inr (tl p)"
  by (cases p) simp_all

lemma descriptor_nodes_set:
  "[] \<notin> fst ` set es \<Longrightarrow>
     \<exists>r. descriptor_nodes es acc = Inr r \<and> set r = set acc \<union> leaf ` fst ` set es"
proof (induction es arbitrary: acc)
  case Nil
  then show ?case by simp
next
  case (Cons e es)
  obtain p d where e: "e = (p, d)" by (cases e)
  from Cons.prems e have p: "p \<noteq> []" and rest: "[] \<notin> fst ` set es" by auto
  from Cons.IH[OF rest, of "acc @ [leaf p]"] p e show ?case
    by (auto simp: slice_from_1_tl leaf_def)
qed

lemma characteristic_paths_Cons:
  "characteristic_paths env sp ((cp, c) # es) =
     insert cp (fst ` set (range_go (descriptors c) (range_descriptors env sp cp))
       \<union> characteristic_paths env sp es)"
  by (auto simp: characteristic_paths_def)

lemma characteristic_nodes_set:
  "[] \<notin> characteristic_paths env sp es \<Longrightarrow>
     \<exists>r. characteristic_nodes env sp es acc = Inr r
        \<and> set r = set acc \<union> leaf ` characteristic_paths env sp es"
proof (induction es arbitrary: acc)
  case Nil
  then show ?case by (simp add: characteristic_paths_def)
next
  case (Cons e es)
  obtain cp c where e: "e = (cp, c)" by (cases e)
  let ?ds = "range_go (descriptors c) (range_descriptors env sp cp)"
  from Cons.prems e have cp: "cp \<noteq> []" and ds: "[] \<notin> fst ` set ?ds"
    and rest: "[] \<notin> characteristic_paths env sp es"
    by (auto simp: characteristic_paths_Cons)
  from descriptor_nodes_set[OF ds, of "acc @ [leaf cp]"] obtain r1 where
    r1: "descriptor_nodes ?ds (acc @ [leaf cp]) = Inr r1"
        "set r1 = set (acc @ [leaf cp]) \<union> leaf ` fst ` set ?ds"
    by blast
  from Cons.IH[OF rest, of r1] obtain r where
    r: "characteristic_nodes env sp es r1 = Inr r"
       "set r = set r1 \<union> leaf ` characteristic_paths env sp es"
    by blast
  have "characteristic_nodes env sp (e # es) acc = Inr r"
    using e cp r1(1) r(1) by (simp add: slice_from_1_tl leaf_def GetDescriptors_def)
  moreover have "set r = set acc \<union> leaf ` characteristic_paths env sp (e # es)"
    using r(2) r1(2) e by (auto simp: characteristic_paths_Cons)
  ultimately show ?case by blast
qed

lemma service_paths_Cons:
  "service_paths env ((sp, s) # es) =
     insert sp (characteristic_paths env sp
                  (range_go (characteristics s) (range_characteristics env sp))
       \<union> service_paths env es)"
  by (auto simp: service_paths_def)

lemma service_nodes_set:
  "[] \<notin> service_paths env es \<Longrightarrow>
     \<exists>r. service_nodes env es acc = Inr r \<and> set r = set acc \<union> leaf ` service_paths env es"
proof (induction es arbitrary: acc)
  case Nil
  then show ?case by (simp add: service_paths_def)
next
  case (Cons e es)
  obtain sp s where e: "e = (sp, s)" by (cases e)
  let ?cs = "range_go (characteristics s) (range_characteristics env sp)"
  from Cons.prems e have sp: "sp \<noteq> []" and cs: "[] \<notin> characteristic_paths env sp ?cs"
    and rest: "[] \<notin> service_paths env es"
    by (auto simp: service_paths_Cons)
  from characteristic_nodes_set[OF cs, of "acc @ [leaf sp]"] obtain r1 where
    r1: "characteristic_nodes env sp ?cs (acc @ [leaf sp]) = Inr r1"
        "set r1 = set (acc @ [leaf sp]) \<union> leaf ` characteristic_paths env sp ?cs"
    by blast
  from Cons.IH[OF rest, of r1] obtain r where
    r: "service_nodes env es r1 = Inr r" "set r = set r1 \<union> leaf ` service_paths env es"
    by blast
  have "service_nodes env (e # es) acc = Inr r"
    using e sp r1(1) r(1) by (simp add: slice_from_1_tl leaf_def GetCharacteristics_def)
  moreover have "set r = set acc \<union> leaf ` service_paths env (e # es)"
    using r(2) r1(2) e by (auto simp: service_paths_Cons)
  ultimately show ?case by blast
qed

lemma service_paths_tree:
  assumes "ranges_ok env app"
  shows "service_paths env (range_go (services app) (range_services env)) = tree_paths app"
proof -
  from assms have so: "range_order (services app) (range_services env)"
    by (simp add: ranges_ok_def)
  have co: "range_order (characteristics s) (range_characteristics env sp)"
    if "services app sp = Some s" for sp s
    using assms that by (simp add: ranges_ok_def)
  have do: "range_order (descriptors c) (range_descriptors env sp cp)"
    if "services app sp = Some s" "characteristics s cp = Some c" for sp s cp c
    using assms that by (simp add: ranges_ok_def)
  have cpaths: "characteristic_paths env sp (range_go (characteristics s) (range_characteristics env sp))
      = dom (characteristics s) \<union> (\<Union>c \<in> ran (characteristics s). dom (descriptors c))"
    if s: "services app sp = Some s" for sp s
  proof -
    have "characteristic_paths env sp (range_go (characteristics s) (range_characteristics env sp))
      = dom (characteristics s) \<union>
        (\<Union>(cp, c) \<in> {(k, v). characteristics s k = Some v}. dom (descriptors c))"
      unfolding characteristic_paths_def set_range_go_order[OF co[OF s]]
      using do[OF s] by (force simp: set_range_go_order dom_def)
    also have "\<dots> = dom (characteristics s) \<union> (\<Union>c \<in> ran (characteristics s). dom (descriptors c))"
      by (auto simp: ran_def)
    finally show ?thesis .
  qed
  have "service_paths env (range_go (services app) (range_services env))
      = dom (services app) \<union>
        (\<Union>(sp, s) \<in> {(k, v). services app k = Some v}.
           dom (characteristics s) \<union> (\<Union>c \<in> ran (characteristics s). dom (descriptors c)))"
    unfolding service_paths_def set_range_go_order[OF so]
    using cpaths by (force simp: dom_def)
  also have "\<dots> = tree_paths app"
    unfolding tree_paths_def ran_def by blast
  finally show ?thesis .
qed

lemma exportTree_node_set:
  assumes "ranges_ok env app" and "[] \<notin> tree_paths app"
  shows "\<exists>r. exportTree_node env app = Inr (Node [] [IntrospectData, ObjectManagerIntrospectData] r)
      \<and> set r = leaf ` tree_paths app"
proof -
  let ?es = "range_go (services app) (range_services env)"
  from assms have "[] \<notin> service_paths env ?es" by (simp add: service_paths_tree)
  from service_nodes_set[OF this, of "[]"] obtain r where
    "service_nodes env ?es [] = Inr r" "set r = leaf ` service_paths env ?es"
    by auto
  with assms(1) show ?thesis
    by (simp add: exportTree_node_def GetServices_def service_paths_tree)
qed

lemma exportTree_node_conn: "exportTree_node env (app\<lparr>conn := c\<rparr>) = exportTree_node env app"
  by (simp add: exportTree_node_def GetServices_def)

lemma ranges_ok_conn: "ranges_ok env (app\<lparr>conn := c\<rparr>) = ranges_ok env app"
  by (simp add: ranges_ok_def)

lemma tree_paths_conn: "tree_paths (app\<lparr>conn := c\<rparr>) = tree_paths app"
  by (simp add: tree_paths_def)

lemma exportTree_publishes:
  assumes "exportTree_node env app = Inr node"
  shows "exportTree env app
      = Inr (Export_err env (Path app) Introspectable,
             app\<lparr>conn := snd (Export env (IntrospectableObject node) (Path app) Introspectable (conn app))\<rparr>)"
    and "Export_err env (Path app) Introspectable = None \<Longrightarrow>
      exported (snd (Export env (IntrospectableObject node) (Path app) Introspectable (conn app)))
        (Path app, Introspectable) = Some (IntrospectableObject node)"
  using assms by (simp_all add: exportTree_def Export_def split: option.splits)

lemma strip_leading_separator_tl:
  "p \<noteq> [] \<Longrightarrow> hd p = CHR ''/'' \<Longrightarrow> strip_leading_separator p = tl p"
  by (cases p) simp_all

text \<open>
  C8 (as amended). For every application state in which no registered path is empty, and
  whatever the order in which the maps are iterated: \<open>exportTree\<close> builds a node whose
  children are exactly the nodes named by the paths of the registered services, of their
  characteristics and of their descriptors, each without its first character (which is
  the leading separator when the path begins with one); its interfaces are the generic
  introspection interface and the object-manager interface; where the export succeeds,
  that node is what is published at the application's path; and a second call, with no
  change of the tree in between, builds a node with the same name, the same interfaces
  and the same set of children.
\<close>

theorem exportTree_children:
  assumes "ranges_ok env app" and "ranges_ok env' app" and "[] \<notin> tree_paths app"
  shows "\<exists>node err app1 node' err' app2.
      exportTree_node env app = Inr node \<and> exportTree env app = Inr (err, app1)
    \<and> set (Children node) = (\<lambda>p. Node (tl p) [] []) ` tree_paths app
    \<and> Interfaces node = [IntrospectData, ObjectManagerIntrospectData]
    \<and> (err = None \<longrightarrow>
          exported (conn app1) (Path app, Introspectable) = Some (IntrospectableObject node))
    \<and> services app1 = services app
    \<and> exportTree_node env' app1 = Inr node' \<and> exportTree env' app1 = Inr (err', app2)
    \<and> set (Children node') = set (Children node)
    \<and> Interfaces node' = Interfaces node \<and> Name node' = Name node
    \<and> ((\<forall>p \<in> tree_paths app. hd p = CHR ''/'') \<longrightarrow>
          set (Children node) = (\<lambda>p. Node (strip_leading_separator p) [] []) ` tree_paths app)"
proof -
  let ?ifs = "[IntrospectData, ObjectManagerIntrospectData]"
  from exportTree_node_set[OF assms(1,3)] obtain r where
    n: "exportTree_node env app = Inr (Node [] ?ifs r)" and r: "set r = leaf ` tree_paths app"
    by blast
  let ?node = "Node [] ?ifs r"
  let ?err = "Export_err env (Path app) Introspectable"
  let ?c = "snd (Export env (IntrospectableObject ?node) (Path app) Introspectable (conn app))"
  let ?app1 = "app\<lparr>conn := ?c\<rparr>"
  have e: "exportTree env app = Inr (?err, ?app1)"
    by (rule exportTree_publishes(1)[OF n])
  have pub: "?err = None \<longrightarrow>
      exported (conn ?app1) (Path app, Introspectable) = Some (IntrospectableObject ?node)"
    using exportTree_publishes(2)[OF n] by simp
  have same: "services ?app1 = services app"
    by simp
  have "exportTree_node env' ?app1 = exportTree_node env' app"
    by (rule exportTree_node_conn)
  with exportTree_node_set[OF assms(2,3)] obtain r' where
    n': "exportTree_node env' ?app1 = Inr (Node [] ?ifs r')" and r': "set r' = leaf ` tree_paths app"
    by auto
  let ?node' = "Node [] ?ifs r'"
  let ?err' = "Export_err env' (Path ?app1) Introspectable"
  let ?c' = "snd (Export env' (IntrospectableObject ?node') (Path ?app1) Introspectable (conn ?app1))"
  have e': "exportTree env' ?app1 = Inr (?err', ?app1\<lparr>conn := ?c'\<rparr>)"
    by (rule exportTree_publishes(1)[OF n'])
  have leaf_eq: "leaf = (\<lambda>p. Node (tl p) [] [])"
    by (rule ext) (simp add: leaf_def)
  have children: "set (Children ?node) = (\<lambda>p. Node (tl p) [] []) ` tree_paths app"
    using r by (simp add: leaf_eq)
  have again: "set (Children ?node') = set (Children ?node)"
    using r r' by simp
  have rooted: "(\<forall>p \<in> tree_paths app. hd p = CHR ''/'') \<longrightarrow>
      set (Children ?node) = (\<lambda>p. Node (strip_leading_separator p) [] []) ` tree_paths app"
  proof
    assume h: "\<forall>p \<in> tree_paths app. hd p = CHR ''/''"
    have "leaf ` tree_paths app = (\<lambda>p. Node (strip_leading_separator p) [] []) ` tree_paths app"
    proof (rule image_cong[OF refl])
      fix p assume p: "p \<in> tree_paths app"
      with assms(3) have "p \<noteq> []" by auto
      with h p show "leaf p = Node (strip_leading_separator p) [] []"
        by (simp add: leaf_def strip_leading_separator_tl)
    qed
    with r show "set (Children ?node) = (\<lambda>p. Node (strip_leading_separator p) [] []) ` tree_paths app"
      by simp
  qed
  show ?thesis
  proof (intro exI conjI)
    show "exportTree_node env app = Inr ?node" by (fact n)
    show "exportTree env app = Inr (?err, ?app1)" by (fact e)
    show "set (Children ?node) = (\<lambda>p. Node (tl p) [] []) ` tree_paths app" by (fact children)
    show "Interfaces ?node = ?ifs" by simp
    show "?err = None \<longrightarrow>
      exported (conn ?app1) (Path app, Introspectable) = Some (IntrospectableObject ?node)"
      by (fact pub)
    show "services ?app1 = services app" by (fact same)
    show "exportTree_node env' ?app1 = Inr ?node'" by (fact n')
    show "exportTree env' ?app1 = Inr (?err', ?app1\<lparr>conn := ?c'\<rparr>)" by (fact e')
    show "set (Children ?node') = set (Children ?node)" by (fact again)
    show "Interfaces ?node' = Interfaces ?node" by simp
    show "Name ?node' = Name ?node" by simp
    show "(\<forall>p \<in> tree_paths app. hd p = CHR ''/'') \<longrightarrow>
      set (Children ?node) = (\<lambda>p. Node (strip_leading_separator p) [] []) ` tree_paths app"
      by (fact rooted)
  qed
qed

text \<open>
  The example application with its service, the characteristic and the descriptor of it.
\<close>

lemma example_ranges_ok: "ranges_ok example_env example_app_1"
  by (auto simp: ranges_ok_def range_order_def example_env_def example_app_1_def example_app_def
      example_service_def split: if_splits)

lemma example_tree_paths:
  "tree_paths example_app_1
     = {''/org/example/app/service1'', ''/org/example/app/service1/char1'',
        ''/org/example/app/service1/char1/desc1''}"
  by (auto simp: tree_paths_def example_app_1_def example_app_def example_service_def
      split: if_splits)

lemma example_leaves:
  "(\<lambda>p. Node (tl p) [] []) ` tree_paths example_app_1
     = {Node ''org/example/app/service1'' [] [],
        Node ''org/example/app/service1/char1'' [] [],
        Node ''org/example/app/service1/char1/desc1'' [] []}"
  unfolding example_tree_paths by simp

theorem exportTree_children_witness:
  "ranges_ok example_env example_app_1
   \<and> [] \<notin> tree_paths example_app_1
   \<and> (\<exists>node. exportTree_node example_env example_app_1 = Inr node
        \<and> set (Children node)
            = {Node ''org/example/app/service1'' [] [],
               Node ''org/example/app/service1/char1'' [] [],
               Node ''org/example/app/service1/char1/desc1'' [] []}
        \<and> Interfaces node = [IntrospectData, ObjectManagerIntrospectData])"
proof -
  have h: "[] \<notin> tree_paths example_app_1"
    by (simp add: example_tree_paths)
  from exportTree_children [OF example_ranges_ok example_ranges_ok h]
  obtain node where n: "exportTree_node example_env example_app_1 = Inr node"
    "set (Children node) = (\<lambda>p. Node (tl p) [] []) ` tree_paths example_app_1"
    "Interfaces node = [IntrospectData, ObjectManagerIntrospectData]"
    by (elim exE conjE) (rule that)
  have "set (Children node)
      = {Node ''org/example/app/service1'' [] [],
         Node ''org/example/app/service1/char1'' [] [],
         Node ''org/example/app/service1/char1/desc1'' [] []}"
    using n(2) example_leaves by (rule trans)
  with n(1,3) example_ranges_ok h show ?thesis by blast
qed

text \<open>
  C8 as stated fails. With the object path \<open>app\<close> configured, the first service has
  the path \<open>app/service1\<close>, which has no leading separator to strip, and the child is
  named \<open>pp/service1\<close>. With a service registered under the empty path, \<open>exportTree\<close>
  panics and builds no node.
\<close>

lemma unrooted_ranges_ok: "ranges_ok unrooted_env unrooted_app"
  by (auto simp: ranges_ok_def range_order_def unrooted_env_def unrooted_app_def example_env_def
      example_app_def unrooted_service_def split: if_splits)

theorem exportTree_children_counterexample:
  "ranges_ok unrooted_env unrooted_app
   \<and> tree_paths unrooted_app = {''app/service1''}
   \<and> strip_leading_separator ''app/service1'' = ''app/service1''
   \<and> exportTree_node unrooted_env unrooted_app
       = Inr (Node [] [IntrospectData, ObjectManagerIntrospectData] [Node ''pp/service1'' [] []])
   \<and> tree_paths pathless_app = {[]}
   \<and> exportTree_node pathless_env pathless_app = Inl SliceBoundsOutOfRange
   \<and> exportTree pathless_env pathless_app = Inl SliceBoundsOutOfRange"
proof -
  have a: "tree_paths unrooted_app = {''app/service1''}"
    by (auto simp: tree_paths_def unrooted_app_def example_app_def unrooted_service_def
        split: if_splits)
  have b: "exportTree_node unrooted_env unrooted_app
       = Inr (Node [] [IntrospectData, ObjectManagerIntrospectData] [Node ''pp/service1'' [] []])"
    by (simp add: exportTree_node_def GetServices_def GetCharacteristics_def range_go_def
        unrooted_env_def unrooted_app_def example_env_def example_app_def unrooted_service_def)
  have c: "tree_paths pathless_app = {[]}"
    by (auto simp: tree_paths_def pathless_app_def example_app_def pathless_service_def
        split: if_splits)
  have d: "exportTree_node pathless_env pathless_app = Inl SliceBoundsOutOfRange"
    by (simp add: exportTree_node_def GetServices_def range_go_def
        pathless_env_def pathless_app_def example_env_def example_app_def)
  have e: "exportTree pathless_env pathless_app = Inl SliceBoundsOutOfRange"
    by (simp add: exportTree_def d)
  from unrooted_ranges_ok a b c d e show ?thesis by simp
qed

end
